theory Spec2Isabelle
  imports Complex_Main
begin

section \<open>Python values, truthiness and exceptions\<close>

text \<open>
  The program is the single module \<open>download_lyrics.py\<close>. Python strings are modelled
  as \<open>string\<close>, one \<open>char\<close> standing for one code point below 256. A value that
  \<open>json.loads\<close> can produce, or that a Python function can return here, is a \<open>pyval\<close>;
  a dictionary is the list of its items, looked up with \<open>map_of\<close>.
\<close>

datatype pyval =
    PNone
  | PBool bool
  | PInt int
  | PFloat rat
  | PStr string
  | PList "pyval list"
  | PDict "(string \<times> pyval) list"

datatype error =
    NameError string
  | AttributeError
  | TypeError
  | KeyError
  | IndexError
  | JSONDecodeError
  | RequestException
  | MutagenError
  | OSError

text \<open>Python's truth value of an object, as \<open>if x:\<close> and \<open>not x\<close> test it.\<close>

fun truthy :: "pyval \<Rightarrow> bool" where
  "truthy PNone = False"
| "truthy (PBool b) = b"
| "truthy (PInt i) = (i \<noteq> 0)"
| "truthy (PFloat r) = (r \<noteq> 0)"
| "truthy (PStr s) = (s \<noteq> [])"
| "truthy (PList xs) = (xs \<noteq> [])"
| "truthy (PDict d) = (d \<noteq> [])"

text \<open>The truth value of a variable that holds \<open>None\<close> or a \<open>str\<close>.\<close>

fun str_truthy :: "string option \<Rightarrow> bool" where
  "str_truthy None = False"
| "str_truthy (Some s) = (s \<noteq> [])"

text \<open>\<open>v.get(k)\<close>: only a dictionary has the method; a missing key gives \<open>None\<close>.\<close>

fun py_get :: "pyval \<Rightarrow> string \<Rightarrow> error + pyval" where
  "py_get (PDict d) k = Inr (case map_of d k of None \<Rightarrow> PNone | Some x \<Rightarrow> x)"
| "py_get v k = Inl AttributeError"

text \<open>\<open>len(v)\<close>: a TypeError for \<open>None\<close>, booleans and numbers.\<close>

fun py_len :: "pyval \<Rightarrow> error + nat" where
  "py_len (PStr s) = Inr (length s)"
| "py_len (PList xs) = Inr (length xs)"
| "py_len (PDict d) = Inr (length d)"
| "py_len v = Inl TypeError"

text \<open>\<open>v[0]\<close>. The keys of a parsed JSON object are strings, so \<open>0\<close> is never a key.\<close>

fun py_index0 :: "pyval \<Rightarrow> error + pyval" where
  "py_index0 (PStr []) = Inl IndexError"
| "py_index0 (PStr (c # cs)) = Inr (PStr [c])"
| "py_index0 (PList []) = Inl IndexError"
| "py_index0 (PList (x # xs)) = Inr x"
| "py_index0 (PDict d) = Inl KeyError"
| "py_index0 v = Inl TypeError"

text \<open>\<open>v[:3]\<close>, as the sequence of items a \<open>for\<close> loop then visits.\<close>

fun py_first3 :: "pyval \<Rightarrow> error + pyval list" where
  "py_first3 (PStr s) = Inr (map (\<lambda>c. PStr [c]) (take 3 s))"
| "py_first3 (PList xs) = Inr (take 3 xs)"
| "py_first3 (PDict d) = Inl KeyError"
| "py_first3 v = Inl TypeError"

section \<open>Strings and paths\<close>

text \<open>The code points below 256 for which \<open>str.isspace\<close> holds; \<open>str.strip()\<close> removes them.\<close>

definition isspace :: "char \<Rightarrow> bool" where
  "isspace c = (c \<in> set [CHR 0x09, CHR 0x0A, CHR 0x0B, CHR 0x0C, CHR 0x0D,
                          CHR 0x1C, CHR 0x1D, CHR 0x1E, CHR 0x1F, CHR 0x20,
                          CHR 0x85, CHR 0xA0])"

definition strip :: "string \<Rightarrow> string" where
  "strip s = rev (dropWhile isspace (rev (dropWhile isspace s)))"

text \<open>\<open>s.find(sep)\<close>: the lowest index at which \<open>sep\<close> occurs, \<open>None\<close> for Python's -1.\<close>

fun str_find :: "string \<Rightarrow> string \<Rightarrow> nat option" where
  "str_find sep [] = (if sep = [] then Some 0 else None)"
| "str_find sep (c # cs) =
     (if take (length sep) (c # cs) = sep then Some 0
      else map_option Suc (str_find sep cs))"

text \<open>\<open>sep in s\<close>.\<close>

definition contains :: "string \<Rightarrow> string \<Rightarrow> bool" where
  "contains sep s = (str_find sep s \<noteq> None)"

text \<open>\<open>s.split(sep, 1)\<close>: at most one split, at the first occurrence.\<close>

definition split1 :: "string \<Rightarrow> string \<Rightarrow> string list" where
  "split1 sep s =
     (case str_find sep s of
        None \<Rightarrow> [s]
      | Some i \<Rightarrow> [take i s, drop (i + length sep) s])"

text \<open>\<open>s.endswith(suf)\<close>.\<close>

definition endswith :: "string \<Rightarrow> string \<Rightarrow> bool" where
  "endswith s suf = (length suf \<le> length s \<and> drop (length s - length suf) s = suf)"

text \<open>\<open>str.lower()\<close> on code points below 256: A-Z and the Latin-1 capitals move up by 32.\<close>

definition lower_char :: "char \<Rightarrow> char" where
  "lower_char c =
     (let n = (of_char c :: nat)
      in if (65 \<le> n \<and> n \<le> 90) \<or> (192 \<le> n \<and> n \<le> 222 \<and> n \<noteq> 215)
         then char_of (n + 32) else c)"

definition lower :: "string \<Rightarrow> string" where
  "lower s = map lower_char s"

text \<open>
  \<open>pathlib\<close> on a path whose name is not empty, as \<open>os.path.join\<close> builds it from a
  directory and a file name (it does not end in a slash): \<open>Path(p).name\<close> is the text after the
  last slash, \<open>Path(p).stem\<close> drops the suffix that starts at the last dot of the name
  when that dot is neither its first nor its last character, and \<open>with_suffix\<close> puts the
  new suffix after the stem, in the same directory.
\<close>

definition path_name :: "string \<Rightarrow> string" where
  "path_name p = rev (takeWhile (\<lambda>c. c \<noteq> CHR ''/'') (rev p))"

definition path_dir :: "string \<Rightarrow> string" where
  "path_dir p = take (length p - length (path_name p)) p"

definition name_stem :: "string \<Rightarrow> string" where
  "name_stem n =
     (if CHR ''.'' \<in> set n
      then (let i = length n - 1 - length (takeWhile (\<lambda>c. c \<noteq> CHR ''.'') (rev n))
            in if 0 < i \<and> i < length n - 1 then take i n else n)
      else n)"

definition stem :: "string \<Rightarrow> string" where
  "stem p = name_stem (path_name p)"

definition with_suffix :: "string \<Rightarrow> string \<Rightarrow> string" where
  "with_suffix p suf = path_dir p @ stem p @ suf"

text \<open>\<open>os.path.join(root, file)\<close> on POSIX.\<close>

definition path_join :: "string \<Rightarrow> string \<Rightarrow> string" where
  "path_join a b =
     (if take 1 b = ''/'' then b
      else if a = [] \<or> endswith a ''/'' then a @ b
      else a @ ''/'' @ b)"

section \<open>The world outside the module\<close>

text \<open>
  The state a run changes: the files that exist, with their contents, and the log of the
  tag reads and network requests made so far.
\<close>

datatype event = TagRead string | NetLookup string string

record world =
  files :: "string \<Rightarrow> string option"
  trace :: "event list"

definition path_exists :: "world \<Rightarrow> string \<Rightarrow> bool" where
  "path_exists w p = (files w p \<noteq> None)"

definition log_event :: "event \<Rightarrow> world \<Rightarrow> world" where
  "log_event ev w = w\<lparr>trace := trace w @ [ev]\<rparr>"

text \<open>What \<open>session.get\<close> does: it raises, or it returns a response with a status code
  whose \<open>json()\<close> either raises (\<open>None\<close>) or gives the parsed value.\<close>

datatype http_outcome = ConnectionFailed | Response int "pyval option"

text \<open>
  The collaborators of the module. \<open>read_mp3\<close> is \<open>MP3(path, ID3=ID3)\<close>: it raises, or gives
  \<open>audio.tags\<close>, which is \<open>None\<close> or the frames by identifier, each already turned into
  text by \<open>str\<close>. \<open>can_open\<close> tells whether \<open>open(path, 'w')\<close> succeeds; \<open>write_fault\<close>
  gives, when writing the text raises after the file was opened, what is left in the file.

  \<open>process_mp3_file\<close> calls the names \<open>get_lyrics_link\<close> and \<open>get_lrc_content\<close>, which Python
  looks up in the module's namespace when the call is reached. The two fields of that
  name hold what the namespace binds them to, \<open>None\<close> when it binds nothing.
\<close>

record env =
  read_mp3 :: "string \<Rightarrow> error + (string \<times> string) list option"
  http_get :: "string \<Rightarrow> string \<Rightarrow> http_outcome"
  can_open :: "string \<Rightarrow> bool"
  write_fault :: "string \<Rightarrow> string \<Rightarrow> string option"
  isdir :: "string \<Rightarrow> bool"
  walk :: "string \<Rightarrow> (string \<times> string list \<times> string list) list"
  get_lyrics_link :: "(string \<Rightarrow> string \<Rightarrow> bool \<Rightarrow> world \<Rightarrow> (error + pyval) \<times> world) option"
  get_lrc_content :: "(pyval \<Rightarrow> bool \<Rightarrow> world \<Rightarrow> (error + pyval) \<times> world) option"

section \<open>Metadata extraction\<close>

text \<open>Lines 64-76: artist from TPE1, else TPE2; title from TIT2; nothing from empty tags.\<close>

definition tag_fields :: "(string \<times> string) list option \<Rightarrow> string option \<times> string option" where
  "tag_fields tags =
     (case tags of
        None \<Rightarrow> (None, None)
      | Some frames \<Rightarrow>
          if frames = [] then (None, None)
          else ((case map_of frames ''TPE1'' of
                   Some a \<Rightarrow> Some a
                 | None \<Rightarrow> map_of frames ''TPE2''),
                map_of frames ''TIT2''))"

text \<open>Lines 78-92: the fallback to the file name.\<close>

definition filename_fallback ::
  "string option \<Rightarrow> string option \<Rightarrow> string \<Rightarrow> string option \<times> string option" where
  "filename_fallback artist title filename =
     (if \<not> str_truthy artist \<or> \<not> str_truthy title
      then (if contains '' - '' filename
            then (let parts = split1 '' - '' filename
                  in (if \<not> str_truthy artist then Some (strip (parts ! 0)) else artist,
                      if \<not> str_truthy title then Some (strip (parts ! 1)) else title))
            else (Some ''Unknown'', Some filename))
      else (artist, title))"

definition get_mp3_metadata ::
  "env \<Rightarrow> string \<Rightarrow> world \<Rightarrow> (string option \<times> string option) \<times> world" where
  "get_mp3_metadata e file_path w =
     (case read_mp3 e file_path of
        Inl err \<Rightarrow> ((None, None), log_event (TagRead file_path) w)
      | Inr tags \<Rightarrow>
          (case tag_fields tags of
             (artist, title) \<Rightarrow>
               (filename_fallback artist title (stem file_path),
                log_event (TagRead file_path) w)))"

section \<open>The lyrics resolver\<close>

text \<open>Lines 131-132: the debug listing calls \<open>get\<close> on each of the first three results.\<close>

fun debug_results :: "pyval list \<Rightarrow> error + unit" where
  "debug_results [] = Inr ()"
| "debug_results (r # rs) =
     (case py_get r ''artistName'' of
        Inl err \<Rightarrow> Inl err
      | Inr a \<Rightarrow>
          (case py_get r ''trackName'' of
             Inl err \<Rightarrow> Inl err
           | Inr t \<Rightarrow> debug_results rs))"

text \<open>Lines 128-132.\<close>

definition debug_block :: "pyval \<Rightarrow> error + unit" where
  "debug_block results =
     (case py_len results of
        Inl err \<Rightarrow> Inl err
      | Inr n \<Rightarrow>
          if truthy results
          then (case py_first3 results of
                  Inl err \<Rightarrow> Inl err
                | Inr items \<Rightarrow> debug_results items)
          else Inr ())"

text \<open>Lines 134-138.\<close>

definition first_result :: "pyval \<Rightarrow> error + pyval" where
  "first_result results =
     (if truthy results
      then (case py_len results of
              Inl err \<Rightarrow> Inl err
            | Inr n \<Rightarrow> if 0 < n then py_index0 results else Inr PNone)
      else Inr PNone)"

text \<open>The body of the \<open>try\<close> of \<open>search_lrclib\<close>, lines 101-138.\<close>

definition search_lrclib_try :: "env \<Rightarrow> string \<Rightarrow> string \<Rightarrow> bool \<Rightarrow> error + pyval" where
  "search_lrclib_try e artist title debug =
     (case http_get e artist title of
        ConnectionFailed \<Rightarrow> Inl RequestException
      | Response status body \<Rightarrow>
          if status \<noteq> 200 then Inr PNone
          else (case body of
                  None \<Rightarrow> Inl JSONDecodeError
                | Some results \<Rightarrow>
                    (case (if debug then debug_block results else Inr ()) of
                       Inl err \<Rightarrow> Inl err
                     | Inr u \<Rightarrow> first_result results)))"

text \<open>\<open>search_lrclib\<close>: the handler of line 139 turns every exception into \<open>None\<close>.\<close>

definition search_lrclib ::
  "env \<Rightarrow> string \<Rightarrow> string \<Rightarrow> bool \<Rightarrow> world \<Rightarrow> (error + pyval) \<times> world" where
  "search_lrclib e artist title debug w =
     ((case search_lrclib_try e artist title debug of
         Inl err \<Rightarrow> Inr PNone
       | Inr v \<Rightarrow> Inr v),
      log_event (NetLookup artist title) w)"

text \<open>The body of the \<open>try\<close> of \<open>get_lrc_from_result\<close>, lines 150-171.\<close>

definition get_lrc_from_result_try :: "pyval \<Rightarrow> bool \<Rightarrow> error + pyval" where
  "get_lrc_from_result_try result debug =
     (if \<not> truthy result then Inr PNone
      else (case py_get result ''syncedLyrics'' of
              Inl err \<Rightarrow> Inl err
            | Inr synced_lyrics \<Rightarrow>
                if truthy synced_lyrics then Inr synced_lyrics
                else (case py_get result ''plainLyrics'' of
                        Inl err \<Rightarrow> Inl err
                      | Inr plain_lyrics \<Rightarrow>
                          if truthy plain_lyrics then Inr plain_lyrics
                          else Inr PNone)))"

definition get_lrc_from_result :: "pyval \<Rightarrow> bool \<Rightarrow> error + pyval" where
  "get_lrc_from_result result debug =
     (case get_lrc_from_result_try result debug of
        Inl err \<Rightarrow> Inr PNone
      | Inr v \<Rightarrow> Inr v)"

section \<open>File persistence\<close>

text \<open>
  \<open>save_lrc_file\<close>: \<open>open(lrc_path, 'w')\<close> creates or empties the file before anything is
  written; \<open>f.write\<close> raises a TypeError for a value that is not a \<open>str\<close>, and may raise
  while writing one. Every exception gives \<open>False\<close>.
\<close>

definition save_lrc_file :: "env \<Rightarrow> string \<Rightarrow> pyval \<Rightarrow> world \<Rightarrow> bool \<times> world" where
  "save_lrc_file e mp3_path lrc_content w =
     (let lrc_path = with_suffix mp3_path ''.lrc''
      in if \<not> can_open e lrc_path then (False, w)
         else (case lrc_content of
                 PStr s \<Rightarrow>
                   (case write_fault e lrc_path s of
                      None \<Rightarrow> (True, w\<lparr>files := (files w)(lrc_path \<mapsto> s)\<rparr>)
                    | Some left \<Rightarrow> (False, w\<lparr>files := (files w)(lrc_path \<mapsto> left)\<rparr>))
               | _ \<Rightarrow> (False, w\<lparr>files := (files w)(lrc_path \<mapsto> [])\<rparr>)))"

section \<open>The batch orchestrator\<close>

definition find_mp3_files :: "env \<Rightarrow> string \<Rightarrow> string list" where
  "find_mp3_files e root_dir =
     concat (map (\<lambda>(root, dirs, names).
                    map (path_join root)
                        (filter (\<lambda>file. endswith (lower file) ''.mp3'') names))
                 (walk e root_dir))"

text \<open>Line 215: \<open>not artist or not title\<close>.\<close>

definition metadata_missing :: "string option \<Rightarrow> string option \<Rightarrow> bool" where
  "metadata_missing artist title = (\<not> str_truthy artist \<or> \<not> str_truthy title)"

text \<open>The text of a variable that holds a \<open>str\<close>.\<close>

fun str_of :: "string option \<Rightarrow> string" where
  "str_of None = []"
| "str_of (Some s) = s"

text \<open>
  \<open>process_mp3_file\<close> from line 222 on: look the lyrics up, fetch their text, save it. An
  exception that nothing catches leaves the function as \<open>Inl\<close>; the NameError is raised
  where the unbound name is evaluated.
\<close>

definition fetch_and_save ::
  "env \<Rightarrow> string \<Rightarrow> string \<Rightarrow> string \<Rightarrow> bool \<Rightarrow> world \<Rightarrow> (error + bool) \<times> world" where
  "fetch_and_save e mp3_path artist title debug w =
     (case get_lyrics_link e of
        None \<Rightarrow> (Inl (NameError ''get_lyrics_link''), w)
      | Some lookup \<Rightarrow>
          (case lookup artist title debug w of
             (Inl err, w2) \<Rightarrow> (Inl err, w2)
           | (Inr link, w2) \<Rightarrow>
               if \<not> truthy link then (Inr False, w2)
               else (case get_lrc_content e of
                       None \<Rightarrow> (Inl (NameError ''get_lrc_content''), w2)
                     | Some fetch \<Rightarrow>
                         (case fetch link debug w2 of
                            (Inl err, w3) \<Rightarrow> (Inl err, w3)
                          | (Inr lrc_content, w3) \<Rightarrow>
                              if \<not> truthy lrc_content then (Inr False, w3)
                              else (case save_lrc_file e mp3_path lrc_content w3 of
                                      (saved, w4) \<Rightarrow> (Inr saved, w4))))))"

text \<open>\<open>process_mp3_file\<close>, lines 202-220, then the rest above.\<close>

definition process_mp3_file ::
  "env \<Rightarrow> string \<Rightarrow> bool \<Rightarrow> bool \<Rightarrow> world \<Rightarrow> (error + bool) \<times> world" where
  "process_mp3_file e mp3_path skip_existing debug w =
     (let lrc_path = with_suffix mp3_path ''.lrc''
      in if skip_existing \<and> path_exists w lrc_path then (Inr False, w)
         else (case get_mp3_metadata e mp3_path w of
                 ((artist, title), w1) \<Rightarrow>
                   if metadata_missing artist title then (Inr False, w1)
                   else fetch_and_save e mp3_path (str_of artist) (str_of title) debug w1))"

record counts =
  success_count :: nat
  skip_count :: nat
  fail_count :: nat

text \<open>Lines 283-288: the branch that picks the counter.\<close>

definition tally :: "bool \<Rightarrow> bool \<Rightarrow> bool \<Rightarrow> counts \<Rightarrow> counts" where
  "tally result lrc_exists skip_existing c =
     (if result then c\<lparr>success_count := success_count c + 1\<rparr>
      else if lrc_exists \<and> skip_existing then c\<lparr>skip_count := skip_count c + 1\<rparr>
      else c\<lparr>fail_count := fail_count c + 1\<rparr>)"

text \<open>One pass through the body of the loop of line 280.\<close>

definition iteration ::
  "env \<Rightarrow> bool \<Rightarrow> bool \<Rightarrow> string \<Rightarrow> counts \<Rightarrow> world \<Rightarrow> (error + counts) \<times> world" where
  "iteration e skip_existing debug mp3_path c w =
     (case process_mp3_file e mp3_path skip_existing debug w of
        (Inl err, w') \<Rightarrow> (Inl err, w')
      | (Inr result, w') \<Rightarrow>
          (Inr (tally result (path_exists w' (with_suffix mp3_path ''.lrc'')) skip_existing c),
           w'))"

fun process_all ::
  "env \<Rightarrow> bool \<Rightarrow> bool \<Rightarrow> string list \<Rightarrow> counts \<Rightarrow> world \<Rightarrow> (error + counts) \<times> world" where
  "process_all e skip_existing debug [] c w = (Inr c, w)"
| "process_all e skip_existing debug (mp3_path # rest) c w =
     (case iteration e skip_existing debug mp3_path c w of
        (Inl err, w') \<Rightarrow> (Inl err, w')
      | (Inr c', w') \<Rightarrow> process_all e skip_existing debug rest c' w')"

text \<open>
  How a run of \<open>main\<close> ends: \<open>sys.exit(n)\<close>, the summary of lines 290-295 with the three
  counts and the total, or an exception that reaches the top level.
\<close>

datatype run_result = SysExit nat | Summary counts nat | Uncaught error

definition main :: "env \<Rightarrow> string list \<Rightarrow> world \<Rightarrow> run_result \<times> world" where
  "main e argv w =
     (if length argv < 2 then (SysExit 1, w)
      else (let music_folder = argv ! 1;
                skip_existing = (''--force'' \<notin> set argv);
                debug = (''--debug'' \<in> set argv)
            in if \<not> isdir e music_folder then (SysExit 1, w)
               else (let mp3_files = find_mp3_files e music_folder
                     in if mp3_files = [] then (SysExit 0, w)
                        else (case process_all e skip_existing debug mp3_files
                                     \<lparr>success_count = 0, skip_count = 0, fail_count = 0\<rparr> w of
                                (Inl err, w') \<Rightarrow> (Uncaught err, w')
                              | (Inr c, w') \<Rightarrow> (Summary c (length mp3_files), w')))))"

text \<open>The exit status of the process: an uncaught exception ends the interpreter with 1.\<close>

fun exit_code :: "run_result \<Rightarrow> nat" where
  "exit_code (SysExit n) = n"
| "exit_code (Summary c n) = 0"
| "exit_code (Uncaught err) = 1"

section \<open>A concrete library\<close>

text \<open>
  The folder \<open>/music\<close> with two tracks that carry no tags, a lyrics service that cannot
  be reached, a disk that takes every write, and the namespace of the module as the
  file defines it: it binds neither \<open>get_lyrics_link\<close> nor \<open>get_lrc_content\<close>.
\<close>

definition music_env :: env where
  "music_env =
     \<lparr>read_mp3 = (\<lambda>p. Inr None),
      http_get = (\<lambda>artist title. ConnectionFailed),
      can_open = (\<lambda>p. True),
      write_fault = (\<lambda>p s. None),
      isdir = (\<lambda>p. p = ''/music''),
      walk = (\<lambda>p. [(''/music'', [], [''Artist - Title.mp3'', ''cover.jpg'', ''second.mp3''])]),
      get_lyrics_link = None,
      get_lrc_content = None\<rparr>"

definition empty_world :: world where
  "empty_world = \<lparr>files = (\<lambda>p. None), trace = []\<rparr>"

text \<open>
  Not the namespace of the module: the one it would have if the two names that
  \<open>process_mp3_file\<close> calls were bound to the module's own resolver functions, whose
  parameters are the ones of the two calls. It serves only to compare with.
\<close>

definition resolver_bound :: "env \<Rightarrow> env" where
  "resolver_bound e =
     e\<lparr>get_lyrics_link := Some (search_lrclib e),
       get_lrc_content := Some (\<lambda>result debug w. (get_lrc_from_result result debug, w))\<rparr>"

text \<open>The same folder once the first track has its lyric file.\<close>

definition lyrics_world :: world where
  "lyrics_world =
     \<lparr>files = [''/music/Artist - Title.lrc'' \<mapsto> ''[00:01.00]Hello''], trace = []\<rparr>"

section \<open>Payload extraction\<close>

lemma get_lrc_synced:
  "map_of d ''syncedLyrics'' = Some (PStr s) \<Longrightarrow> s \<noteq> [] \<Longrightarrow>
   get_lrc_from_result (PDict d) debug = Inr (PStr s)"
  by (cases d) (auto simp: get_lrc_from_result_def get_lrc_from_result_try_def)

lemma falsy_field:
  "map_of d k \<in> {None, Some PNone, Some (PStr [])} \<Longrightarrow>
   \<not> truthy (case map_of d k of None \<Rightarrow> PNone | Some x \<Rightarrow> x)"
  by auto

lemma get_lrc_plain:
  assumes "map_of d ''syncedLyrics'' \<in> {None, Some PNone, Some (PStr [])}"
    and "map_of d ''plainLyrics'' = Some (PStr t)" and "t \<noteq> []"
  shows "get_lrc_from_result (PDict d) debug = Inr (PStr t)"
proof -
  from assms(2) have "d \<noteq> []" by auto
  with falsy_field [OF assms(1)] assms(2,3) show ?thesis
    by (simp add: get_lrc_from_result_def get_lrc_from_result_try_def)
qed

lemma get_lrc_none:
  assumes "map_of d ''syncedLyrics'' \<in> {None, Some PNone, Some (PStr [])}"
    and "map_of d ''plainLyrics'' \<in> {None, Some PNone, Some (PStr [])}"
  shows "get_lrc_from_result (PDict d) debug = Inr PNone"
  using falsy_field [OF assms(1)] falsy_field [OF assms(2)]
  by (simp add: get_lrc_from_result_def get_lrc_from_result_try_def)

text \<open>
  Claim C2. For a search result that is a record \<open>PDict d\<close>: a \<open>syncedLyrics\<close> field holding
  a non-empty string is returned as it is, whatever \<open>plainLyrics\<close> holds; when
  \<open>syncedLyrics\<close> is absent, null or the empty string and \<open>plainLyrics\<close> holds a non-empty
  string, that string is returned; when both fields are absent, null or empty, the
  result is \<open>None\<close>. The debug flag changes nothing.
\<close>

theorem payload_prefers_synced:
  "(map_of d ''syncedLyrics'' = Some (PStr s) \<and> s \<noteq> []
      \<longrightarrow> get_lrc_from_result (PDict d) debug = Inr (PStr s))
   \<and> (map_of d ''syncedLyrics'' \<in> {None, Some PNone, Some (PStr [])}
        \<and> map_of d ''plainLyrics'' = Some (PStr t) \<and> t \<noteq> []
      \<longrightarrow> get_lrc_from_result (PDict d) debug = Inr (PStr t))
   \<and> (map_of d ''syncedLyrics'' \<in> {None, Some PNone, Some (PStr [])}
        \<and> map_of d ''plainLyrics'' \<in> {None, Some PNone, Some (PStr [])}
      \<longrightarrow> get_lrc_from_result (PDict d) debug = Inr PNone)"
  using get_lrc_synced get_lrc_plain get_lrc_none by blast

theorem payload_prefers_synced_witness:
  "get_lrc_from_result
     (PDict [(''syncedLyrics'', PStr ''[00:01.00]Hello''), (''plainLyrics'', PStr ''Hello'')])
     False = Inr (PStr ''[00:01.00]Hello'')
   \<and> get_lrc_from_result
     (PDict [(''trackName'', PStr ''Song X''), (''syncedLyrics'', PNone),
             (''plainLyrics'', PStr ''Hello'')])
     False = Inr (PStr ''Hello'')
   \<and> get_lrc_from_result
     (PDict [(''trackName'', PStr ''Song X''), (''syncedLyrics'', PStr [])])
     True = Inr PNone"
  using
    payload_prefers_synced
      [of "[(''syncedLyrics'', PStr ''[00:01.00]Hello''), (''plainLyrics'', PStr ''Hello'')]"
          "''[00:01.00]Hello''" False "''Hello''"]
    payload_prefers_synced
      [of "[(''trackName'', PStr ''Song X''), (''syncedLyrics'', PNone),
            (''plainLyrics'', PStr ''Hello'')]"
          "''x''" False "''Hello''"]
    payload_prefers_synced
      [of "[(''trackName'', PStr ''Song X''), (''syncedLyrics'', PStr [])]"
          "''x''" True "''x''"]
  by simp

section \<open>Search\<close>

lemma search_try_failure:
  assumes "http_get e artist title = ConnectionFailed
     \<or> (\<exists>status body. http_get e artist title = Response status body
           \<and> (status \<noteq> 200 \<or> body = None \<or> body = Some (PList [])))"
  shows "search_lrclib_try e artist title debug \<in> {Inr PNone} \<union> range Inl"
  using assms
  by (auto simp: search_lrclib_try_def debug_block_def first_result_def)

text \<open>
  Claim C5. When the request raises, or the status is not 200, or the body is not JSON,
  or the body parses to the empty array, \<open>search_lrclib\<close> returns \<open>None\<close> as a value:
  the result is \<open>Inr\<close>, no exception leaves the function, with and without debug.
\<close>

theorem search_failure_gives_none:
  assumes "http_get e artist title = ConnectionFailed
     \<or> (\<exists>status body. http_get e artist title = Response status body
           \<and> (status \<noteq> 200 \<or> body = None \<or> body = Some (PList [])))"
  shows "fst (search_lrclib e artist title debug w) = Inr PNone"
  using search_try_failure [OF assms, of debug]
  by (auto simp: search_lrclib_def)

theorem search_failure_gives_none_witness:
  "fst (search_lrclib music_env ''The Band'' ''Song X'' False empty_world) = Inr PNone
   \<and> fst (search_lrclib (music_env\<lparr>http_get := (\<lambda>artist title. Response 404 None)\<rparr>)
            ''The Band'' ''Song X'' False empty_world) = Inr PNone
   \<and> fst (search_lrclib (music_env\<lparr>http_get := (\<lambda>artist title. Response 200 None)\<rparr>)
            ''The Band'' ''Song X'' True empty_world) = Inr PNone
   \<and> fst (search_lrclib (music_env\<lparr>http_get := (\<lambda>artist title. Response 200 (Some (PList [])))\<rparr>)
            ''The Band'' ''Song X'' True empty_world) = Inr PNone"
  using
    search_failure_gives_none
      [of music_env "''The Band''" "''Song X''" False empty_world]
    search_failure_gives_none
      [of "music_env\<lparr>http_get := (\<lambda>artist title. Response 404 None)\<rparr>"
          "''The Band''" "''Song X''" False empty_world]
    search_failure_gives_none
      [of "music_env\<lparr>http_get := (\<lambda>artist title. Response 200 None)\<rparr>"
          "''The Band''" "''Song X''" True empty_world]
    search_failure_gives_none
      [of "music_env\<lparr>http_get := (\<lambda>artist title. Response 200 (Some (PList [])))\<rparr>"
          "''The Band''" "''Song X''" True empty_world]
  by (simp add: music_env_def)

text \<open>
  With debug off, a 200 response that parses to a non-empty array gives its first
  element; with debug on it does so when the first three elements are records.
\<close>

lemma search_first_no_debug:
  "http_get e artist title = Response 200 (Some (PList (x # xs))) \<Longrightarrow>
   fst (search_lrclib e artist title False w) = Inr x"
  by (simp add: search_lrclib_def search_lrclib_try_def first_result_def)

lemma debug_results_dicts:
  "\<forall>r \<in> set rs. \<exists>d. r = PDict d \<Longrightarrow> debug_results rs = Inr ()"
  by (induction rs) auto

lemma search_first_debug_records:
  assumes "http_get e artist title = Response 200 (Some (PList (x # xs)))"
    and "\<forall>r \<in> set (take 3 (x # xs)). \<exists>d. r = PDict d"
  shows "fst (search_lrclib e artist title True w) = Inr x"
  using assms(1) debug_results_dicts [OF assms(2)]
  by (simp add: search_lrclib_def search_lrclib_try_def first_result_def debug_block_def)

text \<open>
  Claim C6. For a 200 response whose body parses to a non-empty array of candidate
  records, \<open>search_lrclib\<close> returns the first element of the array, with and without
  debug; it is enough that the elements the debug listing visits, the first three, are
  records. Without debug the first element is returned whatever the elements are.
  Nothing is scored or reordered: the result is the head of the list as parsed.
\<close>

theorem search_returns_first_record:
  "(http_get e artist title = Response 200 (Some (PList (x # xs)))
      \<and> (\<forall>r \<in> set (take 3 (x # xs)). \<exists>d. r = PDict d)
    \<longrightarrow> fst (search_lrclib e artist title debug w) = Inr x)
   \<and> (http_get e artist title = Response 200 (Some (PList (x # xs)))
    \<longrightarrow> fst (search_lrclib e artist title False w) = Inr x)"
proof (intro conjI impI)
  assume a: "http_get e artist title = Response 200 (Some (PList (x # xs)))
      \<and> (\<forall>r \<in> set (take 3 (x # xs)). \<exists>d. r = PDict d)"
  then have resp: "http_get e artist title = Response 200 (Some (PList (x # xs)))"
    and recs: "\<forall>r \<in> set (take 3 (x # xs)). \<exists>d. r = PDict d"
    by (rule conjunct1, rule conjunct2)
  show "fst (search_lrclib e artist title debug w) = Inr x"
  proof (cases debug)
    case True
    from search_first_debug_records [OF resp recs, of w] True show ?thesis by simp
  next
    case False
    from search_first_no_debug [OF resp, of w] False show ?thesis by simp
  qed
next
  assume "http_get e artist title = Response 200 (Some (PList (x # xs)))"
  then show "fst (search_lrclib e artist title False w) = Inr x"
    by (rule search_first_no_debug)
qed

theorem search_returns_first_record_witness:
  "fst (search_lrclib
          (music_env\<lparr>http_get := (\<lambda>artist title. Response 200 (Some (PList
             [PDict [(''trackName'', PStr ''Song X''), (''syncedLyrics'', PStr ''[00:01.00]Hello'')],
              PDict [(''trackName'', PStr ''Song X (live)'')]])))\<rparr>)
          ''The Band'' ''Song X'' True empty_world)
     = Inr (PDict [(''trackName'', PStr ''Song X''), (''syncedLyrics'', PStr ''[00:01.00]Hello'')])
   \<and> fst (search_lrclib
          (music_env\<lparr>http_get := (\<lambda>artist title. Response 200 (Some (PList
             [PDict [(''trackName'', PStr ''Song X''), (''syncedLyrics'', PStr ''[00:01.00]Hello'')],
              PDict [(''trackName'', PStr ''Song X (live)'')]])))\<rparr>)
          ''The Band'' ''Song X'' False empty_world)
     = Inr (PDict [(''trackName'', PStr ''Song X''), (''syncedLyrics'', PStr ''[00:01.00]Hello'')])"
proof -
  let ?x = "PDict [(''trackName'', PStr ''Song X''), (''syncedLyrics'', PStr ''[00:01.00]Hello'')]"
  let ?xs = "[PDict [(''trackName'', PStr ''Song X (live)'')]]"
  let ?e = "music_env\<lparr>http_get := (\<lambda>artist title. Response 200 (Some (PList (?x # ?xs))))\<rparr>"
  have resp: "http_get ?e ''The Band'' ''Song X'' = Response 200 (Some (PList (?x # ?xs)))"
    by simp
  have recs: "\<forall>r \<in> set (take 3 (?x # ?xs)). \<exists>d. r = PDict d"
    by simp
  from search_returns_first_record
      [where e = ?e and artist = "''The Band''" and title = "''Song X''" and x = ?x and xs = ?xs
         and debug = True and w = empty_world] resp recs
  show ?thesis by blast
qed

text \<open>
  An array that holds something other than records is not a list of candidates; on the
  body \<open>[5]\<close> the debug listing calls \<open>get\<close> on the number, the handler of line 139
  swallows the AttributeError, and the two modes differ.
\<close>

lemma search_debug_non_record:
  "fst (search_lrclib (music_env\<lparr>http_get := (\<lambda>artist title. Response 200 (Some (PList [PInt 5])))\<rparr>)
          ''The Band'' ''Song X'' True empty_world) = Inr PNone
   \<and> fst (search_lrclib (music_env\<lparr>http_get := (\<lambda>artist title. Response 200 (Some (PList [PInt 5])))\<rparr>)
          ''The Band'' ''Song X'' False empty_world) = Inr (PInt 5)"
  by (simp add: search_lrclib_def search_lrclib_try_def first_result_def debug_block_def music_env_def)

section \<open>Metadata from the file name\<close>

text \<open>What \<open>str_find\<close> computes, in terms of where the separator occurs.\<close>

lemma str_find_first:
  assumes "sep \<noteq> []"
  shows "\<forall>i < length a. take (length sep) (drop i (a @ sep @ b)) \<noteq> sep \<Longrightarrow>
         str_find sep (a @ sep @ b) = Some (length a)"
proof (induction a)
  case Nil
  from assms obtain c cs where "sep = c # cs" by (cases sep) auto
  then show ?case by simp
next
  case (Cons x a)
  from Cons.prems have "take (length sep) (drop 0 ((x # a) @ sep @ b)) \<noteq> sep"
    by blast
  then have here: "take (length sep) (x # a @ sep @ b) \<noteq> sep" by simp
  have "\<forall>i < length a. take (length sep) (drop i (a @ sep @ b)) \<noteq> sep"
  proof (intro allI impI)
    fix i assume "i < length a"
    then have "Suc i < length (x # a)" by simp
    with Cons.prems have "take (length sep) (drop (Suc i) ((x # a) @ sep @ b)) \<noteq> sep"
      by blast
    then show "take (length sep) (drop i (a @ sep @ b)) \<noteq> sep" by simp
  qed
  with Cons.IH have "str_find sep (a @ sep @ b) = Some (length a)" by blast
  with here show ?case by simp
qed

lemma str_find_none:
  assumes "sep \<noteq> []"
  shows "\<forall>i. take (length sep) (drop i s) \<noteq> sep \<Longrightarrow> str_find sep s = None"
proof (induction s)
  case Nil
  with assms show ?case by simp
next
  case (Cons c s)
  from Cons.prems have "take (length sep) (drop 0 (c # s)) \<noteq> sep" by blast
  then have here: "take (length sep) (c # s) \<noteq> sep" by simp
  have "\<forall>i. take (length sep) (drop i s) \<noteq> sep"
  proof
    fix i
    from Cons.prems have "take (length sep) (drop (Suc i) (c # s)) \<noteq> sep" by blast
    then show "take (length sep) (drop i s) \<noteq> sep" by simp
  qed
  with Cons.IH have "str_find sep s = None" by blast
  with here show ?case by simp
qed

lemma str_find_some_occurs:
  "str_find sep s = Some i \<Longrightarrow> take (length sep) (drop i s) = sep"
proof (induction s arbitrary: i)
  case Nil
  then show ?case by (simp split: if_splits)
next
  case (Cons c s)
  show ?case
  proof (cases "take (length sep) (c # s) = sep")
    case True
    with Cons.prems show ?thesis by simp
  next
    case False
    with Cons.prems obtain j where "str_find sep s = Some j" and "i = Suc j"
      by auto
    with Cons.IH show ?thesis by simp
  qed
qed

lemma fallback_untagged_split:
  assumes "\<not> str_truthy artist" and "\<not> str_truthy title"
    and "filename = a @ '' - '' @ b"
    and "\<forall>i < length a. take 3 (drop i filename) \<noteq> '' - ''"
  shows "filename_fallback artist title filename = (Some (strip a), Some (strip b))"
proof -
  have sep: "'' - '' \<noteq> []" by simp
  have len: "length '' - '' = 3" by simp
  have first: "\<forall>i < length a. take (length '' - '') (drop i (a @ '' - '' @ b)) \<noteq> '' - ''"
    unfolding len using assms(4) unfolding assms(3) .
  have "str_find '' - '' (a @ '' - '' @ b) = Some (length a)"
    by (rule str_find_first [OF sep first])
  then have c: "contains '' - '' filename" and s: "split1 '' - '' filename = [a, b]"
    using assms(3) by (simp_all add: contains_def split1_def)
  from assms(1,2) c s show ?thesis
    by (simp add: filename_fallback_def)
qed

lemma fallback_untagged_whole:
  assumes "\<not> str_truthy artist \<or> \<not> str_truthy title"
    and "\<forall>i. take 3 (drop i filename) \<noteq> '' - ''"
  shows "filename_fallback artist title filename = (Some ''Unknown'', Some filename)"
proof -
  have sep: "'' - '' \<noteq> []" by simp
  have len: "length '' - '' = 3" by simp
  have "\<forall>i. take (length '' - '') (drop i filename) \<noteq> '' - ''"
    unfolding len using assms(2) .
  then have "str_find '' - '' filename = None" by (rule str_find_none [OF sep])
  with assms(1) show ?thesis by (auto simp: filename_fallback_def contains_def)
qed

text \<open>
  Claim C4. For a file whose tags can be read and give neither an artist nor a title:
  when the stem is \<open>a\<close>, then \<open>" - "\<close>, then \<open>b\<close>, and \<open>" - "\<close> occurs nowhere earlier,
  extraction gives the artist \<open>a\<close> and the title \<open>b\<close>, both stripped of surrounding
  whitespace; when \<open>" - "\<close> occurs nowhere in the stem, it gives the whole stem as the
  title and \<open>"Unknown"\<close> as the artist.
\<close>

theorem untagged_filename_split:
  assumes "read_mp3 e p = Inr tags"
    and "\<not> str_truthy (fst (tag_fields tags))" and "\<not> str_truthy (snd (tag_fields tags))"
  shows "(stem p = a @ '' - '' @ b \<and> (\<forall>i < length a. take 3 (drop i (stem p)) \<noteq> '' - '')
           \<longrightarrow> fst (get_mp3_metadata e p w) = (Some (strip a), Some (strip b)))
       \<and> ((\<forall>i. take 3 (drop i (stem p)) \<noteq> '' - '')
           \<longrightarrow> fst (get_mp3_metadata e p w) = (Some ''Unknown'', Some (stem p)))"
proof -
  obtain artist title where tf: "tag_fields tags = (artist, title)" by (cases "tag_fields tags")
  with assms(2,3) have na: "\<not> str_truthy artist" and nt: "\<not> str_truthy title" by simp_all
  from assms(1) tf have md: "fst (get_mp3_metadata e p w) = filename_fallback artist title (stem p)"
    by (simp add: get_mp3_metadata_def)
  show ?thesis
    using md fallback_untagged_split [OF na nt] fallback_untagged_whole [of artist title "stem p"] na
    by auto
qed

lemma stem_band: "stem ''/music/The Band  -  Song X.mp3'' = ''The Band  -  Song X''"
  by (simp add: stem_def name_stem_def path_name_def)

lemma first_sep_band:
  "\<forall>i < length ''The Band ''. take 3 (drop i ''The Band  -  Song X'') \<noteq> '' - ''"
proof (intro allI impI)
  fix i :: nat
  assume "i < length ''The Band ''"
  then have "i \<in> {0, 1, 2, 3, 4, 5, 6, 7, 8}" by auto
  then show "take 3 (drop i ''The Band  -  Song X'') \<noteq> '' - ''"
    by (auto simp: drop_Cons')
qed

lemma stem_second: "stem ''/music/second.mp3'' = ''second''"
  by (simp add: stem_def name_stem_def path_name_def)

lemma no_sep_second: "\<forall>i. take 3 (drop i ''second'') \<noteq> '' - ''"
proof
  fix i :: nat
  have "i < 6 \<or> 6 \<le> i" by arith
  then show "take 3 (drop i ''second'') \<noteq> '' - ''"
  proof
    assume "i < 6"
    then have "i \<in> {0, 1, 2, 3, 4, 5}" by auto
    then show ?thesis by (auto simp: drop_Cons')
  next
    assume "6 \<le> i"
    then show ?thesis by simp
  qed
qed

theorem untagged_filename_split_witness:
  "fst (get_mp3_metadata music_env ''/music/The Band  -  Song X.mp3'' empty_world)
     = (Some ''The Band'', Some ''Song X'')
   \<and> fst (get_mp3_metadata music_env ''/music/second.mp3'' empty_world)
     = (Some ''Unknown'', Some ''second'')"
proof -
  have rd: "\<And>p. read_mp3 music_env p = Inr None" by (simp add: music_env_def)
  have na: "\<not> str_truthy (fst (tag_fields None))" and nt: "\<not> str_truthy (snd (tag_fields None))"
    by (simp_all add: tag_fields_def)
  have shape: "stem ''/music/The Band  -  Song X.mp3'' = ''The Band '' @ '' - '' @ '' Song X''"
    by (simp add: stem_band)
  have st: "strip ''The Band '' = ''The Band''" "strip '' Song X'' = ''Song X''"
    by (simp_all add: strip_def isspace_def)
  from untagged_filename_split [OF rd na nt, of "''/music/The Band  -  Song X.mp3''"
      "''The Band ''" "'' Song X''" empty_world] shape first_sep_band stem_band st
  have one: "fst (get_mp3_metadata music_env ''/music/The Band  -  Song X.mp3'' empty_world)
     = (Some ''The Band'', Some ''Song X'')"
    by simp
  from untagged_filename_split [OF rd na nt, of "''/music/second.mp3''" "[]" "[]" empty_world]
    stem_second no_sep_second
  have two: "fst (get_mp3_metadata music_env ''/music/second.mp3'' empty_world)
     = (Some ''Unknown'', Some ''second'')"
    by simp
  from one two show ?thesis by simp
qed

section \<open>When metadata extraction fails\<close>

lemma fallback_result:
  "\<exists>artist title. filename_fallback a t f = (Some artist, Some title)
     \<and> (artist = [] \<longleftrightarrow>
          \<not> str_truthy a \<and> contains '' - '' f \<and> strip (split1 '' - '' f ! 0) = [])"
  by (cases a; cases t) (auto simp: filename_fallback_def Let_def)

text \<open>
  Claim C3, as amended. When reading the tags raises, extraction returns the failure
  signal \<open>(None, None)\<close> and never tries the file name. When the tags can be read, it
  returns an artist and a title, and the check of line 215 rejects them exactly when the
  artist or the title is empty after the fallback, so extraction succeeds whenever the
  fallback leaves both non-empty. The returned artist is empty exactly when the tags give
  no artist and the stem has only whitespace before its first \<open>" - "\<close>.
\<close>

theorem metadata_failure_cases:
  "(read_mp3 e p = Inl err \<longrightarrow>
      fst (get_mp3_metadata e p w) = (None, None) \<and> metadata_missing None None)
   \<and> (read_mp3 e p = Inr tags \<longrightarrow>
      (\<exists>artist title.
         fst (get_mp3_metadata e p w) = (Some artist, Some title)
         \<and> (metadata_missing (Some artist) (Some title) \<longleftrightarrow> artist = [] \<or> title = [])
         \<and> (artist = [] \<longleftrightarrow>
              \<not> str_truthy (fst (tag_fields tags)) \<and> contains '' - '' (stem p)
              \<and> strip (split1 '' - '' (stem p) ! 0) = [])))"
proof (intro conjI impI)
  assume "read_mp3 e p = Inl err"
  then show "fst (get_mp3_metadata e p w) = (None, None)"
    by (simp add: get_mp3_metadata_def)
next
  show "metadata_missing None None" by (simp add: metadata_missing_def)
next
  assume rd: "read_mp3 e p = Inr tags"
  obtain a t where tf: "tag_fields tags = (a, t)" by (cases "tag_fields tags")
  from rd tf have md: "fst (get_mp3_metadata e p w) = filename_fallback a t (stem p)"
    by (simp add: get_mp3_metadata_def)
  from fallback_result [of a t "stem p"] obtain artist title
    where fb: "filename_fallback a t (stem p) = (Some artist, Some title)"
      and ar: "artist = [] \<longleftrightarrow>
          \<not> str_truthy a \<and> contains '' - '' (stem p) \<and> strip (split1 '' - '' (stem p) ! 0) = []"
    by blast
  from md fb ar tf
  show "\<exists>artist title.
         fst (get_mp3_metadata e p w) = (Some artist, Some title)
         \<and> (metadata_missing (Some artist) (Some title) \<longleftrightarrow> artist = [] \<or> title = [])
         \<and> (artist = [] \<longleftrightarrow>
              \<not> str_truthy (fst (tag_fields tags)) \<and> contains '' - '' (stem p)
              \<and> strip (split1 '' - '' (stem p) ! 0) = [])"
    by (simp add: metadata_missing_def)
qed

theorem metadata_failure_cases_witness:
  "fst (get_mp3_metadata (music_env\<lparr>read_mp3 := (\<lambda>p. Inl MutagenError)\<rparr>)
          ''/music/Artist - Title.mp3'' empty_world) = (None, None)
   \<and> (\<exists>artist title.
         fst (get_mp3_metadata music_env ''/music/Artist - Title.mp3'' empty_world)
           = (Some artist, Some title)
         \<and> (metadata_missing (Some artist) (Some title) \<longleftrightarrow> artist = [] \<or> title = []))"
  using
    metadata_failure_cases
      [where e = "music_env\<lparr>read_mp3 := (\<lambda>p. Inl MutagenError)\<rparr>"
         and p = "''/music/Artist - Title.mp3''" and err = MutagenError and w = empty_world]
    metadata_failure_cases
      [where e = music_env and p = "''/music/Artist - Title.mp3''" and tags = None
         and w = empty_world]
  by (simp add: music_env_def) blast

text \<open>
  The claim as it was written fails on the untagged file \<open>/music/ - Title.mp3\<close>: the
  fallback gives the title \<open>Title\<close> and the empty artist, and the track is rejected. It
  also fails on a file whose tags cannot be read: no fallback is tried, whatever its
  name.
\<close>

theorem blank_artist_counterexample:
  "fst (get_mp3_metadata music_env ''/music/ - Title.mp3'' empty_world) = (Some [], Some ''Title'')
   \<and> fst (process_mp3_file music_env ''/music/ - Title.mp3'' True False empty_world) = Inr False
   \<and> fst (get_mp3_metadata (music_env\<lparr>read_mp3 := (\<lambda>p. Inl MutagenError)\<rparr>)
            ''/music/Artist - Title.mp3'' empty_world) = (None, None)"
  by code_simp

section \<open>The batch loop\<close>

lemma process_skip:
  "path_exists w (with_suffix p ''.lrc'') \<Longrightarrow> process_mp3_file e p True debug w = (Inr False, w)"
  by (simp add: process_mp3_file_def)

lemma iteration_skip:
  "path_exists w (with_suffix p ''.lrc'') \<Longrightarrow>
   iteration e True debug p c w = (Inr (c\<lparr>skip_count := skip_count c + 1\<rparr>), w)"
  by (simp add: iteration_def process_skip tally_def)

lemma process_all_skip:
  "\<forall>q \<in> set ps. path_exists w (with_suffix q ''.lrc'') \<Longrightarrow>
   process_all e True debug ps c w = (Inr (c\<lparr>skip_count := skip_count c + length ps\<rparr>), w)"
  by (induction ps arbitrary: c) (simp_all add: iteration_skip)

lemma main_all_skipped:
  assumes "2 \<le> length argv" and "''--force'' \<notin> set argv" and "isdir e (argv ! 1)"
    and "find_mp3_files e (argv ! 1) \<noteq> []"
    and "\<forall>q \<in> set (find_mp3_files e (argv ! 1)). path_exists w (with_suffix q ''.lrc'')"
  shows "main e argv w
     = (Summary \<lparr>success_count = 0, skip_count = length (find_mp3_files e (argv ! 1)),
                 fail_count = 0\<rparr>
          (length (find_mp3_files e (argv ! 1))), w)"
  using assms(1-4) process_all_skip [OF assms(5), of e "''--debug'' \<in> set argv"
      "\<lparr>success_count = 0, skip_count = 0, fail_count = 0\<rparr>"]
  by (simp add: main_def Let_def)

text \<open>
  Claim C8. In skip mode, a track whose lyric file exists is not processed: the world
  after \<open>process_mp3_file\<close> and after the whole iteration is the world before, so every
  file keeps its content and the log gains neither a tag read nor a network request,
  and the iteration adds one to the skipped count and to nothing else. A batch of such
  tracks ends with all of them counted as skipped and the world unchanged, and a run
  without \<open>--force\<close> on a folder where every track has its lyric file prints the summary
  with every track skipped, none successful and none failed.
\<close>

theorem existing_lyrics_skipped:
  "(path_exists w (with_suffix p ''.lrc'') \<longrightarrow>
      process_mp3_file e p True debug w = (Inr False, w)
      \<and> iteration e True debug p c w = (Inr (c\<lparr>skip_count := skip_count c + 1\<rparr>), w))
   \<and> ((\<forall>q \<in> set ps. path_exists w (with_suffix q ''.lrc'')) \<longrightarrow>
      process_all e True debug ps c w
        = (Inr (c\<lparr>skip_count := skip_count c + length ps\<rparr>), w))
   \<and> (2 \<le> length argv \<and> ''--force'' \<notin> set argv \<and> isdir e (argv ! 1)
        \<and> find_mp3_files e (argv ! 1) \<noteq> []
        \<and> (\<forall>q \<in> set (find_mp3_files e (argv ! 1)). path_exists w (with_suffix q ''.lrc''))
      \<longrightarrow> main e argv w
        = (Summary \<lparr>success_count = 0, skip_count = length (find_mp3_files e (argv ! 1)),
                    fail_count = 0\<rparr>
             (length (find_mp3_files e (argv ! 1))), w))"
  using process_skip [of w p e debug] iteration_skip [of w p e debug c]
    process_all_skip [of ps w e debug c] main_all_skipped [of argv e w]
  by blast

lemma lyric_there: "path_exists lyrics_world (with_suffix ''/music/Artist - Title.mp3'' ''.lrc'')"
  by (simp add: path_exists_def lyrics_world_def with_suffix_def path_dir_def path_name_def
      stem_def name_stem_def)

lemma one_track:
  "find_mp3_files (music_env\<lparr>walk := (\<lambda>p. [(''/music'', [], [''Artist - Title.mp3''])])\<rparr>)
     ''/music'' = [''/music/Artist - Title.mp3'']"
  by code_simp

theorem existing_lyrics_skipped_witness:
  "process_mp3_file music_env ''/music/Artist - Title.mp3'' True False lyrics_world
     = (Inr False, lyrics_world)
   \<and> iteration music_env True False ''/music/Artist - Title.mp3''
        \<lparr>success_count = 0, skip_count = 0, fail_count = 0\<rparr> lyrics_world
     = (Inr \<lparr>success_count = 0, skip_count = 1, fail_count = 0\<rparr>, lyrics_world)
   \<and> process_all music_env True False [''/music/Artist - Title.mp3'']
        \<lparr>success_count = 0, skip_count = 0, fail_count = 0\<rparr> lyrics_world
     = (Inr \<lparr>success_count = 0, skip_count = 1, fail_count = 0\<rparr>, lyrics_world)
   \<and> main (music_env\<lparr>walk := (\<lambda>p. [(''/music'', [], [''Artist - Title.mp3''])])\<rparr>)
        [''download_lyrics.py'', ''/music''] lyrics_world
     = (Summary \<lparr>success_count = 0, skip_count = 1, fail_count = 0\<rparr> 1, lyrics_world)"
  using lyric_there one_track
    existing_lyrics_skipped
      [where w = lyrics_world and p = "''/music/Artist - Title.mp3''" and e = music_env
         and debug = False and c = "\<lparr>success_count = 0, skip_count = 0, fail_count = 0\<rparr>"
         and ps = "[''/music/Artist - Title.mp3'']" and argv = "[]"]
    existing_lyrics_skipped
      [where w = lyrics_world and p = "''/music/Artist - Title.mp3''"
         and e = "music_env\<lparr>walk := (\<lambda>p. [(''/music'', [], [''Artist - Title.mp3''])])\<rparr>"
         and debug = False and c = "\<lparr>success_count = 0, skip_count = 0, fail_count = 0\<rparr>"
         and ps = "[]" and argv = "[''download_lyrics.py'', ''/music'']"]
  by (simp add: music_env_def)

lemma tally_one:
  "tally r x s c = c\<lparr>success_count := success_count c + 1\<rparr>
   \<or> tally r x s c = c\<lparr>skip_count := skip_count c + 1\<rparr>
   \<or> tally r x s c = c\<lparr>fail_count := fail_count c + 1\<rparr>"
  by (simp add: tally_def)

lemma iteration_one:
  assumes "fst (iteration e skip debug p c w) = Inr c'"
  shows "c' = c\<lparr>success_count := success_count c + 1\<rparr>
   \<or> c' = c\<lparr>skip_count := skip_count c + 1\<rparr>
   \<or> c' = c\<lparr>fail_count := fail_count c + 1\<rparr>"
proof -
  obtain r w' where pr: "process_mp3_file e p skip debug w = (r, w')"
    by (cases "process_mp3_file e p skip debug w")
  show ?thesis
  proof (cases r)
    case (Inl err)
    with pr assms show ?thesis by (simp add: iteration_def)
  next
    case (Inr result)
    with pr assms have "c' = tally result (path_exists w' (with_suffix p ''.lrc'')) skip c"
      by (simp add: iteration_def)
    with tally_one show ?thesis by simp
  qed
qed

lemma iteration_processed:
  "fst (iteration e skip debug p c w) = Inr c' \<Longrightarrow>
   success_count c' + skip_count c' + fail_count c'
     = Suc (success_count c + skip_count c + fail_count c)"
  using iteration_one [of e skip debug p c w c'] by auto

lemma process_all_processed:
  "fst (process_all e skip debug ps c w) = Inr c' \<Longrightarrow>
   success_count c' + skip_count c' + fail_count c'
     = success_count c + skip_count c + fail_count c + length ps"
proof (induction ps arbitrary: c w)
  case Nil
  then show ?case by simp
next
  case (Cons p ps)
  obtain r w1 where it: "iteration e skip debug p c w = (r, w1)"
    by (cases "iteration e skip debug p c w")
  show ?case
  proof (cases r)
    case (Inl err)
    with it Cons.prems show ?thesis by simp
  next
    case (Inr c1)
    with it Cons.prems have rest: "fst (process_all e skip debug ps c1 w1) = Inr c'" by simp
    from it Inr have "fst (iteration e skip debug p c w) = Inr c1" by simp
    then have "success_count c1 + skip_count c1 + fail_count c1
        = Suc (success_count c + skip_count c + fail_count c)"
      by (rule iteration_processed)
    with Cons.IH [OF rest] show ?thesis by simp
  qed
qed

lemma main_summary:
  assumes "fst (main e argv w) = Summary c n"
  shows "success_count c + skip_count c + fail_count c = n
         \<and> n = length (find_mp3_files e (argv ! 1))"
proof -
  let ?fs = "find_mp3_files e (argv ! 1)"
  let ?run = "process_all e (''--force'' \<notin> set argv) (''--debug'' \<in> set argv) ?fs
       \<lparr>success_count = 0, skip_count = 0, fail_count = 0\<rparr> w"
  from assms have run: "fst ?run = Inr c" and n: "n = length ?fs"
    by (auto simp: main_def Let_def split: if_splits prod.splits sum.splits)
  from process_all_processed [OF run] n show ?thesis by simp
qed

text \<open>
  Claim C10. An iteration of the loop that runs to its end leaves the counts with
  exactly one of the three raised by one and the other two as they were; and when the
  run reaches the summary, the three counts add up to the number of files that
  \<open>find_mp3_files\<close> discovered.
\<close>

theorem one_counter_per_track:
  "(fst (iteration e skip debug p c w) = Inr c' \<longrightarrow>
      c' = c\<lparr>success_count := success_count c + 1\<rparr>
      \<or> c' = c\<lparr>skip_count := skip_count c + 1\<rparr>
      \<or> c' = c\<lparr>fail_count := fail_count c + 1\<rparr>)
   \<and> (fst (main e argv w0) = Summary s n \<longrightarrow>
      success_count s + skip_count s + fail_count s = n
      \<and> n = length (find_mp3_files e (argv ! 1)))"
  using iteration_one [of e skip debug p c w c'] main_summary [of e argv w0 s n]
  by simp

lemma unreadable_run:
  "fst (main (music_env\<lparr>read_mp3 := (\<lambda>p. Inl MutagenError)\<rparr>)
          [''download_lyrics.py'', ''/music''] empty_world)
   = Summary \<lparr>success_count = 0, skip_count = 0, fail_count = 2\<rparr> 2"
  by code_simp

theorem one_counter_per_track_witness:
  "fst (iteration music_env True False ''/music/Artist - Title.mp3''
          \<lparr>success_count = 0, skip_count = 0, fail_count = 0\<rparr> lyrics_world)
     = Inr \<lparr>success_count = 0, skip_count = 1, fail_count = 0\<rparr>
   \<and> fst (main (music_env\<lparr>read_mp3 := (\<lambda>p. Inl MutagenError)\<rparr>)
          [''download_lyrics.py'', ''/music''] empty_world)
     = Summary \<lparr>success_count = 0, skip_count = 0, fail_count = 2\<rparr> 2
   \<and> length (find_mp3_files (music_env\<lparr>read_mp3 := (\<lambda>p. Inl MutagenError)\<rparr>) ''/music'') = 2"
  using unreadable_run iteration_skip [OF lyric_there, of music_env False
      "\<lparr>success_count = 0, skip_count = 0, fail_count = 0\<rparr>"]
    one_counter_per_track
      [where e = "music_env\<lparr>read_mp3 := (\<lambda>p. Inl MutagenError)\<rparr>"
         and argv = "[''download_lyrics.py'', ''/music'']" and ?w0.0 = empty_world
         and s = "\<lparr>success_count = 0, skip_count = 0, fail_count = 2\<rparr>" and n = 2]
    one_counter_per_track
      [where e = music_env and skip = True and debug = False
         and p = "''/music/Artist - Title.mp3''"
         and c = "\<lparr>success_count = 0, skip_count = 0, fail_count = 0\<rparr>"
         and w = lyrics_world
         and c' = "\<lparr>success_count = 0, skip_count = 1, fail_count = 0\<rparr>"]
  by simp

section \<open>Exit status\<close>

text \<open>
  Claim C9. With no argument after the program name, and with a first argument that
  is not a directory, \<open>main\<close> ends by \<open>sys.exit(1)\<close> in the world it started in: nothing
  was read, looked up or written. With a directory that holds no MP3 file it ends by
  \<open>sys.exit(0)\<close>. And whenever the loop over the discovered files runs to its end,
  \<open>main\<close> prints the summary with the counts the loop reached and returns, which
  leaves the process with status 0.
\<close>

theorem exit_codes:
  "(length argv < 2 \<longrightarrow> main e argv w = (SysExit 1, w))
   \<and> (2 \<le> length argv \<and> \<not> isdir e (argv ! 1) \<longrightarrow> main e argv w = (SysExit 1, w))
   \<and> (2 \<le> length argv \<and> isdir e (argv ! 1) \<and> find_mp3_files e (argv ! 1) = []
        \<longrightarrow> main e argv w = (SysExit 0, w))
   \<and> (2 \<le> length argv \<and> isdir e (argv ! 1) \<and> find_mp3_files e (argv ! 1) \<noteq> []
        \<and> process_all e (''--force'' \<notin> set argv) (''--debug'' \<in> set argv)
             (find_mp3_files e (argv ! 1))
             \<lparr>success_count = 0, skip_count = 0, fail_count = 0\<rparr> w = (Inr c, w')
        \<longrightarrow> main e argv w = (Summary c (length (find_mp3_files e (argv ! 1))), w')
            \<and> exit_code (fst (main e argv w)) = 0)"
  by (simp add: main_def Let_def)

lemma no_tracks:
  "find_mp3_files (music_env\<lparr>walk := (\<lambda>p. [(''/music'', [], [''cover.jpg''])])\<rparr>) ''/music'' = []"
  by code_simp

lemma two_tracks:
  "find_mp3_files (music_env\<lparr>read_mp3 := (\<lambda>p. Inl MutagenError)\<rparr>) ''/music''
   = [''/music/Artist - Title.mp3'', ''/music/second.mp3'']"
  by code_simp

lemma unreadable_all:
  "process_all (music_env\<lparr>read_mp3 := (\<lambda>p. Inl MutagenError)\<rparr>) True False
     [''/music/Artist - Title.mp3'', ''/music/second.mp3'']
     \<lparr>success_count = 0, skip_count = 0, fail_count = 0\<rparr> empty_world
   = (Inr \<lparr>success_count = 0, skip_count = 0, fail_count = 2\<rparr>,
      \<lparr>files = (\<lambda>p. None),
       trace = [TagRead ''/music/Artist - Title.mp3'', TagRead ''/music/second.mp3'']\<rparr>)"
  by (simp add: iteration_def process_mp3_file_def get_mp3_metadata_def metadata_missing_def
      tally_def path_exists_def empty_world_def log_event_def music_env_def)

theorem exit_codes_witness:
  "main music_env [''download_lyrics.py''] empty_world = (SysExit 1, empty_world)
   \<and> main music_env [''download_lyrics.py'', ''/nowhere''] empty_world = (SysExit 1, empty_world)
   \<and> main (music_env\<lparr>walk := (\<lambda>p. [(''/music'', [], [''cover.jpg''])])\<rparr>)
        [''download_lyrics.py'', ''/music''] empty_world = (SysExit 0, empty_world)
   \<and> main (music_env\<lparr>read_mp3 := (\<lambda>p. Inl MutagenError)\<rparr>)
        [''download_lyrics.py'', ''/music''] empty_world
      = (Summary \<lparr>success_count = 0, skip_count = 0, fail_count = 2\<rparr> 2,
         \<lparr>files = (\<lambda>p. None),
          trace = [TagRead ''/music/Artist - Title.mp3'', TagRead ''/music/second.mp3'']\<rparr>)
   \<and> exit_code (fst (main (music_env\<lparr>read_mp3 := (\<lambda>p. Inl MutagenError)\<rparr>)
          [''download_lyrics.py'', ''/music''] empty_world)) = 0"
  using unreadable_all two_tracks no_tracks
    exit_codes [where argv = "[''download_lyrics.py'']" and e = music_env and w = empty_world]
    exit_codes [where argv = "[''download_lyrics.py'', ''/nowhere'']" and e = music_env
                  and w = empty_world]
    exit_codes [where argv = "[''download_lyrics.py'', ''/music'']"
                  and e = "music_env\<lparr>walk := (\<lambda>p. [(''/music'', [], [''cover.jpg''])])\<rparr>"
                  and w = empty_world]
    exit_codes [where argv = "[''download_lyrics.py'', ''/music'']"
                  and e = "music_env\<lparr>read_mp3 := (\<lambda>p. Inl MutagenError)\<rparr>"
                  and w = empty_world
                  and c = "\<lparr>success_count = 0, skip_count = 0, fail_count = 2\<rparr>"
                  and w' = "\<lparr>files = (\<lambda>p. None),
                     trace = [TagRead ''/music/Artist - Title.mp3'', TagRead ''/music/second.mp3'']\<rparr>"]
  by (simp add: music_env_def)

section \<open>The two names the module never defines\<close>

text \<open>
  While \<open>get_lyrics_link\<close> is unbound, every track that is not skipped and has an artist
  and a title ends \<open>process_mp3_file\<close> with a NameError, which neither that function nor
  \<open>main\<close> catches.
\<close>

lemma unbound_lookup_raises:
  assumes "get_lyrics_link e = None"
    and "\<not> (skip \<and> path_exists w (with_suffix p ''.lrc''))"
    and "fst (get_mp3_metadata e p w) = (Some artist, Some title)"
    and "artist \<noteq> []" and "title \<noteq> []"
  shows "fst (process_mp3_file e p skip debug w) = Inl (NameError ''get_lyrics_link'')"
  using assms
  by (auto simp: process_mp3_file_def metadata_missing_def fetch_and_save_def split: prod.splits)

text \<open>
  Claim C1. The claim fails on the module as it is written: on the folder with the two
  untagged tracks \<open>Artist - Title.mp3\<close> and \<open>second.mp3\<close>, the first track reaches line 224,
  the NameError ends the run, no summary is printed, and the second track is never
  read.
\<close>

theorem unbound_name_aborts_batch:
  "fst (main music_env [''download_lyrics.py'', ''/music''] empty_world)
     = Uncaught (NameError ''get_lyrics_link'')
   \<and> trace (snd (main music_env [''download_lyrics.py'', ''/music''] empty_world))
     = [TagRead ''/music/Artist - Title.mp3'']"
  by code_simp

text \<open>
  With the two names bound to the module's resolver functions the same run, whose
  service cannot be reached, goes through both tracks and prints the summary.
\<close>

lemma bound_names_complete:
  "fst (main (resolver_bound music_env) [''download_lyrics.py'', ''/music''] empty_world)
     = Summary \<lparr>success_count = 0, skip_count = 0, fail_count = 2\<rparr> 2"
  by code_simp

section \<open>The write stage\<close>

text \<open>
  \<open>save_lrc_file\<close> is called at line 241 only, after the two unbound names. While
  \<open>get_lyrics_link\<close> is unbound no run reaches it: whatever the arguments, the folder
  and the collaborators, \<open>main\<close> leaves every file as it found it.
\<close>

lemma metadata_keeps_files: "files (snd (get_mp3_metadata e p w)) = files w"
  by (simp add: get_mp3_metadata_def log_event_def split: sum.splits prod.splits)

lemma unbound_process_keeps_files:
  assumes "get_lyrics_link e = None"
  shows "files (snd (process_mp3_file e p skip debug w)) = files w"
  using assms metadata_keeps_files [of e p w]
  by (auto simp: process_mp3_file_def fetch_and_save_def Let_def split: prod.splits)

lemma unbound_iteration_keeps_files:
  assumes "get_lyrics_link e = None"
  shows "files (snd (iteration e skip debug p c w)) = files w"
  using unbound_process_keeps_files [OF assms, of p skip debug w]
  by (auto simp: iteration_def split: prod.splits sum.splits)

lemma unbound_process_all_keeps_files:
  assumes "get_lyrics_link e = None"
  shows "files (snd (process_all e skip debug ps c w)) = files w"
proof (induction ps arbitrary: c w)
  case Nil
  show ?case by simp
next
  case (Cons p ps)
  obtain r w1 where it: "iteration e skip debug p c w = (r, w1)"
    by (cases "iteration e skip debug p c w")
  with unbound_iteration_keeps_files [OF assms, of skip debug p c w]
  have keep: "files w1 = files w" by simp
  show ?case
  proof (cases r)
    case (Inl err)
    with it keep show ?thesis by simp
  next
    case (Inr c1)
    with it keep Cons.IH [of c1 w1] show ?thesis by simp
  qed
qed

lemma unbound_run_never_writes:
  assumes "get_lyrics_link e = None"
  shows "files (snd (main e argv w)) = files w"
  using unbound_process_all_keeps_files [OF assms, of "''--force'' \<notin> set argv"
      "''--debug'' \<in> set argv" "find_mp3_files e (argv ! 1)"
      "\<lparr>success_count = 0, skip_count = 0, fail_count = 0\<rparr>" w]
  by (auto simp: main_def Let_def split: prod.splits sum.splits)

text \<open>
  The two functions taken by themselves: whenever \<open>save_lrc_file\<close> fails after the file
  could be opened, the lyric file exists afterwards, and with \<open>skip_existing\<close> set the
  branch of line 285 picks the skipped count for such a result.
\<close>

lemma failed_write_tally:
  assumes "save_lrc_file e p content w = (False, w')"
    and "can_open e (with_suffix p ''.lrc'')"
  shows "tally False (path_exists w' (with_suffix p ''.lrc'')) True c
         = c\<lparr>skip_count := skip_count c + 1\<rparr>"
  using assms
  by (auto simp: save_lrc_file_def tally_def path_exists_def Let_def
      split: pyval.splits option.splits)

end
